theory Spec2Isabelle
  imports Main "HOL-Library.Word"
begin

unbundle bit_operations_syntax

section \<open>Data model of \<^verbatim>\<open>bf16::bfloat16_t\<close>\<close>

text \<open>
  A C++ \<^verbatim>\<open>float\<close> is represented by its 32-bit object representation:
  \<^verbatim>\<open>std::bit_cast<uint32_t>\<close> and \<^verbatim>\<open>std::bit_cast<float>\<close> are mutually inverse
  bijections, so a float and its bit pattern carry the same information.
  The class has the single private member \<^verbatim>\<open>uint16_t data\<close>.
\<close>

type_synonym float32 = "32 word"

record bfloat16_t =
  data :: "16 word"

text \<open>The private mask constants are declared \<^verbatim>\<open>uint32_t\<close> in the class.\<close>

definition SIGN_MASK :: "32 word" where
  "SIGN_MASK = 0x8000"

definition EXP_MASK :: "32 word" where
  "EXP_MASK = 0x7F80"

definition MANT_MASK :: "32 word" where
  "MANT_MASK = 0x007F"

definition EXP_SHIFT :: nat where
  "EXP_SHIFT = 7"

definition EXP_BIAS :: int where
  "EXP_BIAS = 127"

definition get_sign_mask :: "32 word" where
  "get_sign_mask = SIGN_MASK"

text \<open>
  An expression mixing the \<^verbatim>\<open>uint16_t\<close> member with a \<^verbatim>\<open>uint32_t\<close> mask is evaluated
  in \<^verbatim>\<open>uint32_t\<close> (usual arithmetic conversions); \<open>promote\<close> is that zero extension.
  Storing back into the member truncates to the low 16 bits (\<open>ucast\<close>).
\<close>

definition promote :: "16 word \<Rightarrow> 32 word" where
  "promote d = ucast d"

section \<open>Conversion\<close>

text \<open>Default constructor: \<^verbatim>\<open>data(0)\<close>.\<close>

definition bfloat16_default :: bfloat16_t where
  "bfloat16_default = \<lparr> data = 0 \<rparr>"

text \<open>
  \<^verbatim>\<open>bfloat16_t(float value)\<close>: bit-cast, \<^verbatim>\<open>float_bits += 0x7FFF\<close> (unsigned 32-bit
  addition, wrapping), then \<^verbatim>\<open>static_cast<uint16_t>(float_bits >> 16)\<close>.
\<close>

definition bfloat16_of_float :: "float32 \<Rightarrow> bfloat16_t" where
  "bfloat16_of_float val =
     (let float_bits = val;
          float_bits = float_bits + 0x7FFF
      in \<lparr> data = ucast (drop_bit 16 float_bits) \<rparr>)"

text \<open>\<^verbatim>\<open>operator float()\<close>: \<^verbatim>\<open>static_cast<uint32_t>(data) << 16\<close>, bit-cast to float.\<close>

definition operator_float :: "bfloat16_t \<Rightarrow> float32" where
  "operator_float this = (let float_bits = push_bit 16 (ucast (data this) :: 32 word) in float_bits)"

text \<open>Raw bit accessor \<^verbatim>\<open>bits()\<close> and the write through the reference it returns.\<close>

definition bits :: "bfloat16_t \<Rightarrow> 16 word" where
  "bits this = data this"

definition set_bits :: "32 word \<Rightarrow> bfloat16_t \<Rightarrow> bfloat16_t" where
  "set_bits v this = this \<lparr> data := ucast v \<rparr>"

section \<open>Comparison\<close>

text \<open>
  Both comparison operators are defaulted, so they compare the only member,
  \<^verbatim>\<open>data\<close>, as an unsigned 16-bit integer. The result of \<^verbatim>\<open><=>\<close> on an integral
  member is a \<^verbatim>\<open>std::strong_ordering\<close>.
\<close>

datatype strong_ordering = less | equal | greater

definition operator_spaceship :: "bfloat16_t \<Rightarrow> bfloat16_t \<Rightarrow> strong_ordering" where
  "operator_spaceship this other =
     (if data this < data other then less
      else if data this = data other then equal
      else greater)"

definition operator_eq :: "bfloat16_t \<Rightarrow> bfloat16_t \<Rightarrow> bool" where
  "operator_eq this other = (data this = data other)"

text \<open>The relational operators are rewritten by the compiler in terms of \<^verbatim>\<open><=>\<close>.\<close>

definition operator_lt :: "bfloat16_t \<Rightarrow> bfloat16_t \<Rightarrow> bool" where
  "operator_lt a b = (operator_spaceship a b = less)"

definition operator_gt :: "bfloat16_t \<Rightarrow> bfloat16_t \<Rightarrow> bool" where
  "operator_gt a b = (operator_spaceship a b = greater)"

definition operator_le :: "bfloat16_t \<Rightarrow> bfloat16_t \<Rightarrow> bool" where
  "operator_le a b = (operator_spaceship a b \<noteq> greater)"

definition operator_ge :: "bfloat16_t \<Rightarrow> bfloat16_t \<Rightarrow> bool" where
  "operator_ge a b = (operator_spaceship a b \<noteq> less)"

definition operator_ne :: "bfloat16_t \<Rightarrow> bfloat16_t \<Rightarrow> bool" where
  "operator_ne a b = (\<not> operator_eq a b)"

section \<open>Arithmetic\<close>

text \<open>Unary minus: \<^verbatim>\<open>result.data = data ^ SIGN_MASK\<close>.\<close>

definition operator_neg :: "bfloat16_t \<Rightarrow> bfloat16_t" where
  "operator_neg this =
     (let result = bfloat16_default
      in result \<lparr> data := ucast (promote (data this) XOR SIGN_MASK) \<rparr>)"

text \<open>
  The four float operations \<^verbatim>\<open>+ - * /\<close> on \<^verbatim>\<open>float\<close> belong to the platform, not to
  this library; they are a parameter of the model, acting on bit patterns.
\<close>

record float_ops =
  fadd :: "float32 \<Rightarrow> float32 \<Rightarrow> float32"
  fsub :: "float32 \<Rightarrow> float32 \<Rightarrow> float32"
  fmul :: "float32 \<Rightarrow> float32 \<Rightarrow> float32"
  fdiv :: "float32 \<Rightarrow> float32 \<Rightarrow> float32"

text \<open>
  Compound assignment: \<^verbatim>\<open>*this = static_cast<float>(*this) + static_cast<float>(other)\<close>.
  The float on the right is converted by the converting constructor and the
  temporary is copy-assigned to the receiver. The function returns the receiver's
  new state.
\<close>

definition operator_plus_assign :: "float_ops \<Rightarrow> bfloat16_t \<Rightarrow> bfloat16_t \<Rightarrow> bfloat16_t" where
  "operator_plus_assign F this other =
     (let tmp = bfloat16_of_float (fadd F (operator_float this) (operator_float other))
      in this \<lparr> data := data tmp \<rparr>)"

definition operator_minus_assign :: "float_ops \<Rightarrow> bfloat16_t \<Rightarrow> bfloat16_t \<Rightarrow> bfloat16_t" where
  "operator_minus_assign F this other =
     (let tmp = bfloat16_of_float (fsub F (operator_float this) (operator_float other))
      in this \<lparr> data := data tmp \<rparr>)"

definition operator_times_assign :: "float_ops \<Rightarrow> bfloat16_t \<Rightarrow> bfloat16_t \<Rightarrow> bfloat16_t" where
  "operator_times_assign F this other =
     (let tmp = bfloat16_of_float (fmul F (operator_float this) (operator_float other))
      in this \<lparr> data := data tmp \<rparr>)"

definition operator_div_assign :: "float_ops \<Rightarrow> bfloat16_t \<Rightarrow> bfloat16_t \<Rightarrow> bfloat16_t" where
  "operator_div_assign F this other =
     (let tmp = bfloat16_of_float (fdiv F (operator_float this) (operator_float other))
      in this \<lparr> data := data tmp \<rparr>)"

text \<open>Binary operators: \<^verbatim>\<open>lhs\<close> is taken by value, updated in place and returned.\<close>

definition operator_plus :: "float_ops \<Rightarrow> bfloat16_t \<Rightarrow> bfloat16_t \<Rightarrow> bfloat16_t" where
  "operator_plus F lhs rhs = (let lhs = operator_plus_assign F lhs rhs in lhs)"

definition operator_minus :: "float_ops \<Rightarrow> bfloat16_t \<Rightarrow> bfloat16_t \<Rightarrow> bfloat16_t" where
  "operator_minus F lhs rhs = (let lhs = operator_minus_assign F lhs rhs in lhs)"

definition operator_times :: "float_ops \<Rightarrow> bfloat16_t \<Rightarrow> bfloat16_t \<Rightarrow> bfloat16_t" where
  "operator_times F lhs rhs = (let lhs = operator_times_assign F lhs rhs in lhs)"

definition operator_div :: "float_ops \<Rightarrow> bfloat16_t \<Rightarrow> bfloat16_t \<Rightarrow> bfloat16_t" where
  "operator_div F lhs rhs = (let lhs = operator_div_assign F lhs rhs in lhs)"

section \<open>Classification\<close>

definition is_nan :: "bfloat16_t \<Rightarrow> bool" where
  "is_nan this =
     ((promote (data this) AND EXP_MASK) = EXP_MASK \<and> (promote (data this) AND MANT_MASK) \<noteq> 0)"

definition is_infinity :: "bfloat16_t \<Rightarrow> bool" where
  "is_infinity this =
     ((promote (data this) AND EXP_MASK) = EXP_MASK \<and> (promote (data this) AND MANT_MASK) = 0)"

definition is_zero :: "bfloat16_t \<Rightarrow> bool" where
  "is_zero this = ((promote (data this) AND NOT SIGN_MASK) = 0)"

definition is_negative :: "bfloat16_t \<Rightarrow> bool" where
  "is_negative this = ((promote (data this) AND SIGN_MASK) \<noteq> 0)"

text \<open>
  \<^verbatim>\<open>get_exponent\<close> returns \<^verbatim>\<open>int16_t\<close>, a 16-bit word read with \<open>sint\<close>. The
  subtraction of the \<^verbatim>\<open>int\<close> bias happens in \<^verbatim>\<open>uint32_t\<close> and wraps; the cast keeps
  the low 16 bits.
\<close>

definition get_exponent :: "bfloat16_t \<Rightarrow> 16 word" where
  "get_exponent this =
     (if is_zero this then 0
      else if is_nan this \<or> is_infinity this then 0x7FFF
      else ucast (drop_bit EXP_SHIFT (promote (data this) AND EXP_MASK) - word_of_int EXP_BIAS))"

definition get_mantissa :: "bfloat16_t \<Rightarrow> 16 word" where
  "get_mantissa this = ucast (promote (data this) AND MANT_MASK)"

definition get_sign :: "bfloat16_t \<Rightarrow> bool" where
  "get_sign this = is_negative this"

section \<open>Named values\<close>

definition zero :: bfloat16_t where
  "zero = (let result = bfloat16_default in result \<lparr> data := 0 \<rparr>)"

definition infinity :: bfloat16_t where
  "infinity = (let result = bfloat16_default in result \<lparr> data := ucast EXP_MASK \<rparr>)"

definition negative_infinity :: bfloat16_t where
  "negative_infinity =
     (let result = bfloat16_default in result \<lparr> data := ucast (SIGN_MASK OR EXP_MASK) \<rparr>)"

definition nan :: bfloat16_t where
  "nan = (let result = bfloat16_default in result \<lparr> data := ucast (EXP_MASK OR 0x0001) \<rparr>)"

text \<open>\<^verbatim>\<open>bf16::abs\<close>: \<^verbatim>\<open>result.bits() = x.bits() & ~get_sign_mask()\<close>.\<close>

definition bf16_abs :: "bfloat16_t \<Rightarrow> bfloat16_t" where
  "bf16_abs x =
     (let result = bfloat16_default
      in set_bits (promote (bits x) AND NOT get_sign_mask) result)"

section \<open>\<^verbatim>\<open>std::numeric_limits<bf16::bfloat16_t>\<close>\<close>

text \<open>Float literal \<^verbatim>\<open>0.5f\<close>: sign 0, biased exponent 126, mantissa 0.\<close>

definition float_0_5 :: float32 where
  "float_0_5 = 0x3F000000"

definition limits_min :: bfloat16_t where
  "limits_min = (let result = bfloat16_default in set_bits 0x0080 result)"

definition limits_lowest :: bfloat16_t where
  "limits_lowest = (let result = bfloat16_default in set_bits 0xFF7F result)"

definition limits_max :: bfloat16_t where
  "limits_max = (let result = bfloat16_default in set_bits 0x7F7F result)"

definition limits_epsilon :: bfloat16_t where
  "limits_epsilon = (let result = bfloat16_default in set_bits 0x3C00 result)"

definition limits_round_error :: bfloat16_t where
  "limits_round_error = bfloat16_of_float float_0_5"

definition limits_infinity :: bfloat16_t where
  "limits_infinity = infinity"

definition limits_quiet_NaN :: bfloat16_t where
  "limits_quiet_NaN = nan"

definition limits_denorm_min :: bfloat16_t where
  "limits_denorm_min = (let result = bfloat16_default in set_bits 0x0001 result)"

section \<open>Float arguments\<close>

text \<open>
  IEEE-754 binary32 reading of an argument's bit pattern: sign in bit 31,
  exponent field in bits 30..23, mantissa in bits 22..0. These describe the
  inputs only; the library itself never inspects a float.
\<close>

definition float_exp_field :: "float32 \<Rightarrow> 32 word" where
  "float_exp_field f = drop_bit 23 f AND 0xFF"

definition float_mantissa :: "float32 \<Rightarrow> 32 word" where
  "float_mantissa f = f AND 0x7FFFFF"

definition float_sign :: "float32 \<Rightarrow> bool" where
  "float_sign f = bit f 31"

definition float_is_nan :: "float32 \<Rightarrow> bool" where
  "float_is_nan f = (float_exp_field f = 0xFF \<and> float_mantissa f \<noteq> 0)"

definition float_is_inf :: "float32 \<Rightarrow> bool" where
  "float_is_inf f = (float_exp_field f = 0xFF \<and> float_mantissa f = 0)"

text \<open>
  Bit patterns of the float values that the tests and the limits table pass to
  the converting constructor.
\<close>

definition float_0_0 :: float32 where
  "float_0_0 = 0x00000000"

definition float_neg_0_0 :: float32 where
  "float_neg_0_0 = 0x80000000"

definition float_1_0 :: float32 where
  "float_1_0 = 0x3F800000"

definition float_neg_1_0 :: float32 where
  "float_neg_1_0 = 0xBF800000"

definition float_2_0 :: float32 where
  "float_2_0 = 0x40000000"

definition float_4_0 :: float32 where
  "float_4_0 = 0x40800000"

definition float_8_0 :: float32 where
  "float_8_0 = 0x41000000"

text \<open>\<^verbatim>\<open>std::numeric_limits<float>::max()\<close>, the largest finite float.\<close>

definition float_max :: float32 where
  "float_max = 0x7F7FFFFF"

text \<open>\<^verbatim>\<open>std::numeric_limits<float>::infinity()\<close> and its negation.\<close>

definition float_infinity :: float32 where
  "float_infinity = 0x7F800000"

definition float_neg_infinity :: float32 where
  "float_neg_infinity = 0xFF800000"

text \<open>\<^verbatim>\<open>std::numeric_limits<float>::quiet_NaN()\<close>: only the top mantissa bit set.\<close>

definition float_quiet_NaN :: float32 where
  "float_quiet_NaN = 0x7FC00000"

text \<open>Two further NaN patterns: every mantissa bit set, and only the lowest one set.\<close>

definition float_nan_all_ones :: float32 where
  "float_nan_all_ones = 0x7FFFFFFF"

definition float_nan_low_payload :: float32 where
  "float_nan_low_payload = 0x7F800001"


section \<open>Auxiliary facts\<close>

lemmas mask_defs = SIGN_MASK_def EXP_MASK_def MANT_MASK_def promote_def get_sign_mask_def

lemmas float_consts =
  float_0_0_def float_neg_0_0_def float_0_5_def float_1_0_def float_neg_1_0_def
  float_2_0_def float_4_0_def float_8_0_def float_max_def float_infinity_def
  float_neg_infinity_def float_quiet_NaN_def float_nan_all_ones_def
  float_nan_low_payload_def

lemmas float_class_defs =
  float_is_nan_def float_is_inf_def float_exp_field_def float_mantissa_def float_sign_def

text \<open>The stored pattern after narrowing, read as a natural number.\<close>

lemma unat_narrow:
  "unat (data (bfloat16_of_float f)) = ((unat f + 0x7FFF) mod 2 ^ 32) div 2 ^ 16"
proof -
  let ?s = "f + 0x7FFF"
  have lt: "unat ?s < 2 ^ 32"
    using unsigned_less [of ?s, where ?'a = nat] by simp
  have "unat (drop_bit 16 ?s) = drop_bit 16 (unat ?s)"
    by (rule unat_drop_bit_eq)
  then have shifted: "unat (drop_bit 16 ?s) = unat ?s div 2 ^ 16"
    by (simp only: drop_bit_eq_div)
  have "unat ?s div 2 ^ 16 < 2 ^ 16"
    using lt by (simp add: less_mult_imp_div_less)
  then have "unat (ucast (drop_bit 16 ?s) :: 16 word) = unat ?s div 2 ^ 16"
    by (simp only: unsigned_ucast_eq shifted) (simp add: take_bit_nat_eq_self)
  moreover have "unat ?s = (unat f + 0x7FFF) mod 2 ^ 32"
    by (simp add: unat_word_ariths)
  ultimately show ?thesis
    by (simp add: bfloat16_of_float_def)
qed

text \<open>A float whose low half is zero has no bit set below position 16.\<close>

lemma low_half_clear:
  fixes f :: "32 word"
  assumes zero: "f AND 0xFFFF = 0" and n: "n < 16"
  shows "\<not> bit f n"
proof -
  have "take_bit 16 f = 0"
    using zero by (simp add: take_bit_eq_mask mask_eq_exp_minus_1)
  then have "bit (take_bit 16 f) n = False"
    by simp
  then show ?thesis
    using n by (simp add: bit_take_bit_iff)
qed

lemma widen_narrow_exact:
  assumes zero: "f AND 0xFFFF = 0"
  shows "operator_float (bfloat16_of_float f) = f"
proof -
  have "f AND 0x7FFF = (f AND 0xFFFF) AND 0x7FFF"
    by (simp add: and.assoc)
  then have "f AND 0x7FFF = 0"
    using zero by simp
  then have no_carry: "f + 0x7FFF = f OR 0x7FFF"
    by (rule disjunctive_add_eq_or)
  have upper: "drop_bit 16 (f OR 0x7FFF) = drop_bit 16 f"
    by simp
  have "push_bit 16 (ucast (ucast (drop_bit 16 f) :: 16 word) :: 32 word) = f"
  proof (rule bit_word_eqI)
    fix n
    assume "n < LENGTH(32)"
    then have n: "n < 32"
      by simp
    show "bit (push_bit 16 (ucast (ucast (drop_bit 16 f) :: 16 word) :: 32 word)) n = bit f n"
    proof (cases "n < 16")
      case True
      then show ?thesis
        using low_half_clear [OF zero True] by (simp add: bit_simps)
    next
      case False
      then have "16 + (n - 16) = n" and "n - 16 < 16" and "n - 16 < 32"
        using n by arith+
      then show ?thesis
        using False n by (simp add: bit_simps)
    qed
  qed
  then show ?thesis
    by (simp add: operator_float_def bfloat16_of_float_def no_carry upper)
qed

lemma operator_float_low_half: "operator_float v AND 0xFFFF = 0"
proof -
  have "take_bit 16 (push_bit 16 (ucast (data v) :: 32 word)) = 0"
    by (simp add: take_bit_push_bit)
  then show ?thesis
    by (simp add: operator_float_def take_bit_eq_mask mask_eq_exp_minus_1)
qed

text \<open>The sign test on the stored pattern is a threshold on its unsigned value.\<close>

lemma bit15_iff: "bit (d :: 16 word) 15 = (32768 \<le> unat d)"
proof -
  have lt: "unat d < 65536"
    using unsigned_less [of d, where ?'a = nat] by simp
  have "bit d 15 = bit (unat d) 15"
    by (simp add: bit_unsigned_iff)
  also have "\<dots> = odd (unat d div 32768)"
    by (simp add: bit_iff_odd)
  also have "\<dots> = (32768 \<le> unat d)"
  proof (cases "32768 \<le> unat d")
    case True
    then have "unat d div 32768 = 1"
      using lt by simp
    then show ?thesis
      using True by simp
  next
    case False
    then have "unat d div 32768 = 0"
      by simp
    then show ?thesis
      using False by simp
  qed
  finally show ?thesis .
qed

lemma is_negative_bit: "is_negative x = bit (data x) 15"
proof -
  have "(push_bit 15 1 :: 32 word) = 0x8000"
    by simp
  then have "is_negative x = bit (ucast (data x) :: 32 word) 15"
    by (simp add: is_negative_def mask_defs bit_iff_and_push_bit_not_eq_0)
  also have "\<dots> = bit (data x) 15"
    by (simp add: bit_word_ucast_iff)
  finally show ?thesis .
qed

lemma is_negative_iff: "is_negative x = (32768 \<le> unat (data x))"
  by (simp add: is_negative_bit bit15_iff)

text \<open>A float classified as infinite is one of exactly two bit patterns.\<close>

lemma float_is_inf_cases:
  assumes inf: "float_is_inf f"
  shows "f = (if float_sign f then float_neg_infinity else float_infinity)"
proof -
  have mant: "take_bit 23 f = 0"
    using inf by (simp add: float_is_inf_def float_mantissa_def take_bit_eq_mask mask_eq_exp_minus_1)
  have expo: "take_bit 8 (drop_bit 23 f) = mask 8"
    using inf by (simp add: float_is_inf_def float_exp_field_def take_bit_eq_mask mask_eq_exp_minus_1)
  have lo: "\<not> bit f n" if "n < 23" for n
  proof -
    have "bit (take_bit 23 f) n = False"
      by (simp add: mant)
    then show ?thesis
      using that by (simp add: bit_take_bit_iff)
  qed
  have mid: "bit f n" if "23 \<le> n" "n < 31" for n
  proof -
    have "bit (take_bit 8 (drop_bit 23 f)) (n - 23) = bit (mask 8 :: 32 word) (n - 23)"
      by (simp only: expo)
    moreover have "n - 23 < 8" "23 + (n - 23) = n"
      using that by arith+
    ultimately show ?thesis
      by (simp add: bit_simps)
  qed
  have neg: "float_neg_infinity = push_bit 23 (mask 9)"
    by (simp add: float_neg_infinity_def mask_eq_exp_minus_1)
  have pos: "float_infinity = push_bit 23 (mask 8)"
    by (simp add: float_infinity_def mask_eq_exp_minus_1)
  show ?thesis
  proof (rule bit_word_eqI)
    fix n
    assume "n < LENGTH(32)"
    then have "n < 32"
      by simp
    then consider "n < 23" | "23 \<le> n" "n < 31" | "n = 31"
      by arith
    then show "bit f n = bit (if float_sign f then float_neg_infinity else float_infinity) n"
    proof cases
      case 1
      then show ?thesis
        using lo [OF 1] by (simp add: neg pos bit_simps)
    next
      case 2
      then have "n - 23 < 8" "n - 23 < 9"
        by arith+
      then show ?thesis
        using mid [OF 2] 2 by (simp add: neg pos bit_simps)
    next
      case 3
      then show ?thesis
        by (simp add: neg pos bit_simps float_sign_def)
    qed
  qed
qed

lemma neg_bits: "data (operator_neg x) = data x XOR 0x8000"
proof -
  have "ucast ((ucast (data x) :: 32 word) XOR 0x8000) = data x XOR 0x8000"
    by (rule bit_word_eqI) (simp add: bit_simps)
  then show ?thesis
    by (simp add: operator_neg_def mask_defs bfloat16_default_def)
qed

lemma zero_exp_field:
  assumes "is_zero x"
  shows "promote (data x) AND EXP_MASK \<noteq> EXP_MASK"
proof -
  let ?p = "promote (data x)"
  have "?p AND EXP_MASK = (?p AND NOT SIGN_MASK) AND EXP_MASK"
    by (simp add: and.assoc SIGN_MASK_def EXP_MASK_def)
  then have "?p AND EXP_MASK = 0"
    using assms by (simp add: is_zero_def)
  then show ?thesis
    by (simp add: EXP_MASK_def)
qed


text \<open>Fields of a float and of a stored pattern as quotients and remainders.\<close>

lemma unat_float_mantissa: "unat (float_mantissa f) = unat f mod 8388608"
proof -
  have "(0x7FFFFF :: 32 word) = mask 23"
    by (simp add: mask_eq_exp_minus_1)
  then have "float_mantissa f = take_bit 23 f"
    by (simp add: float_mantissa_def take_bit_eq_mask)
  then have "unat (float_mantissa f) = take_bit 23 (unat f)"
    by (simp only: unsigned_take_bit_eq)
  then show ?thesis
    by (simp add: take_bit_eq_mod)
qed

lemma unat_float_exp_field: "unat (float_exp_field f) = (unat f div 8388608) mod 256"
proof -
  have "(0xFF :: 32 word) = mask 8"
    by (simp add: mask_eq_exp_minus_1)
  then have "float_exp_field f = take_bit 8 (drop_bit 23 f)"
    by (simp add: float_exp_field_def take_bit_eq_mask)
  then have "unat (float_exp_field f) = take_bit 8 (drop_bit 23 (unat f))"
    by (simp only: unsigned_take_bit_eq unat_drop_bit_eq)
  then show ?thesis
    by (simp add: take_bit_eq_mod drop_bit_eq_div)
qed

lemma float_is_nan_nat:
  "float_is_nan f = ((unat f div 8388608) mod 256 = 255 \<and> unat f mod 8388608 \<noteq> 0)"
proof -
  have "(float_exp_field f = 0xFF) = (unat (float_exp_field f) = 255)"
    by (simp add: word_unat_eq_iff)
  moreover have "(float_mantissa f = 0) = (unat (float_mantissa f) = 0)"
    by (simp add: word_unat_eq_iff)
  ultimately show ?thesis
    by (simp add: float_is_nan_def unat_float_exp_field unat_float_mantissa)
qed

lemma unat_promote: "unat (promote d) = unat d"
proof -
  have "unat d < 2 ^ 16"
    using unsigned_less [of d, where ?'a = nat] by simp
  then have "unat d < 2 ^ 32"
    by simp
  then have "take_bit 32 (unat d) = unat d"
    by (simp only: take_bit_nat_eq_self)
  then show ?thesis
    by (simp add: promote_def unsigned_ucast_eq)
qed

lemma unat_mant_field: "unat (promote d AND MANT_MASK) = unat d mod 128"
proof -
  have "(0x7F :: 32 word) = mask 7"
    by (simp add: mask_eq_exp_minus_1)
  then have "promote d AND MANT_MASK = take_bit 7 (promote d)"
    by (simp add: MANT_MASK_def take_bit_eq_mask)
  then have "unat (promote d AND MANT_MASK) = take_bit 7 (unat d)"
    by (simp only: unsigned_take_bit_eq unat_promote)
  then show ?thesis
    by (simp add: take_bit_eq_mod)
qed

lemma unat_exp_field: "unat (promote d AND EXP_MASK) = 128 * ((unat d div 128) mod 256)"
proof -
  let ?p = "promote d"
  let ?a = "take_bit 8 (drop_bit 7 ?p)"
  have c: "(0x7F80 :: 32 word) = push_bit 7 (mask 8)"
    by (simp add: mask_eq_exp_minus_1)
  have "?p AND push_bit 7 (mask 8) = push_bit 7 ?a"
  proof (rule bit_word_eqI)
    fix n
    assume "n < LENGTH(32)"
    show "bit (?p AND push_bit 7 (mask 8)) n = bit (push_bit 7 ?a) n"
    proof (cases "7 \<le> n")
      case True
      then have "7 + (n - 7) = n"
        by simp
      then show ?thesis
        using True by (auto simp add: bit_simps)
    next
      case False
      then show ?thesis
        by (simp add: bit_simps)
    qed
  qed
  then have field: "promote d AND EXP_MASK = push_bit 7 ?a"
    by (simp only: EXP_MASK_def c)
  have a: "unat ?a = (unat d div 128) mod 256"
  proof -
    have "unat ?a = take_bit 8 (drop_bit 7 (unat d))"
      by (simp only: unsigned_take_bit_eq unat_drop_bit_eq unat_promote)
    then show ?thesis
      by (simp add: take_bit_eq_mod drop_bit_eq_div)
  qed
  have "unat (push_bit 7 ?a) = take_bit 32 (push_bit 7 (unat ?a))"
    by (simp only: unsigned_push_bit_eq) simp
  also have "\<dots> = (128 * unat ?a) mod 4294967296"
  proof -
    have "take_bit 32 (push_bit 7 u) = (128 * u) mod 4294967296" for u :: nat
      by (simp add: take_bit_eq_mod push_bit_eq_mult mult.commute)
    then show ?thesis
      by (simp only:)
  qed
  also have "\<dots> = 128 * unat ?a"
  proof -
    have "unat ?a < 256"
      by (simp add: a)
    then show ?thesis
      by simp
  qed
  finally show ?thesis
    by (simp only: field a)
qed

lemma is_nan_nat:
  "is_nan x = ((unat (data x) div 128) mod 256 = 255 \<and> unat (data x) mod 128 \<noteq> 0)"
proof -
  let ?p = "promote (data x)"
  have "(?p AND EXP_MASK = EXP_MASK) = (unat (?p AND EXP_MASK) = 32640)"
    by (simp add: word_unat_eq_iff EXP_MASK_def)
  moreover have "(?p AND MANT_MASK = 0) = (unat (?p AND MANT_MASK) = 0)"
    by (simp add: word_unat_eq_iff)
  ultimately show ?thesis
    by (simp add: is_nan_def unat_exp_field unat_mant_field)
qed

text \<open>
  The arithmetic of narrowing a pattern whose exponent field is all ones:
  \<open>n\<close> is the float's pattern, and the left-hand side is the NaN test on the
  stored result.
\<close>

lemma narrow_nan_arith:
  fixes n :: nat
  assumes n: "n < 4294967296" and e: "(n div 8388608) mod 256 = 255"
  shows "(((((n + 32767) mod 4294967296) div 65536) div 128) mod 256 = 255
          \<and> (((n + 32767) mod 4294967296) div 65536) mod 128 \<noteq> 0)
       = (32768 < n mod 8388608 \<and> n mod 8388608 \<le> 8355840)"
proof -
  define q where "q = n div 8388608"
  define k where "k = n mod 8388608"
  define r where "r = ((n + 32767) mod 4294967296) div 65536"
  have n_eq: "n = q * 8388608 + k"
    by (simp add: q_def k_def)
  have k_lt: "k < 8388608"
    by (simp add: k_def)
  have q_lt: "q < 512"
    using n by (simp add: q_def less_mult_imp_div_less)
  have q_mod: "q mod 256 = 255"
    using e by (simp add: q_def)
  have "q div 256 < 2"
    using q_lt by (simp add: less_mult_imp_div_less)
  then have "q div 256 = 0 \<or> q div 256 = 1"
    by arith
  moreover have "q = 256 * (q div 256) + q mod 256"
    by simp
  ultimately have q_cases: "q = 255 \<or> q = 511"
    using q_mod by auto
  have goal: "((r div 128) mod 256 = 255 \<and> r mod 128 \<noteq> 0) = (32768 < k \<and> k \<le> 8355840)"
  proof (cases "k \<le> 8355840")
    case True
    define t where "t = k + 32767"
    have t_lt: "t < 8388608"
      using True by (simp add: t_def)
    have sum: "n + 32767 = (q * 128) * 65536 + t"
      by (simp add: n_eq t_def)
    have "n + 32767 < 4294967296"
      using q_lt t_lt sum by simp
    then have "r = ((q * 128) * 65536 + t) div 65536"
      by (simp add: r_def sum)
    then have r_eq: "r = q * 128 + t div 65536"
      by simp
    have j_lt: "t div 65536 < 128"
      using t_lt by (simp add: less_mult_imp_div_less)
    have "r div 128 = q"
      using j_lt by (simp add: r_eq)
    moreover have "r mod 128 = t div 65536"
      using j_lt by (simp add: r_eq)
    moreover have "(t div 65536 \<noteq> 0) = (32768 < k)"
      by (simp add: t_def div_eq_0_iff) arith
    ultimately show ?thesis
      using True q_mod by simp
  next
    case False
    define t where "t = k + 32767 - 8388608"
    define m where "m = (q + 1) * 128"
    have t_lt: "t < 65536"
      using k_lt False by (simp add: t_def)
    have sum: "n + 32767 = m * 65536 + t"
      using False by (simp add: n_eq t_def m_def)
    from q_cases have "r = 32768 \<or> r = 0"
    proof
      assume q: "q = 255"
      then have "n + 32767 < 4294967296"
        using t_lt by (simp add: sum m_def)
      then have "r = (m * 65536 + t) div 65536"
        by (simp add: r_def sum)
      then have "r = m"
        using t_lt by simp
      then show ?thesis
        by (simp add: m_def q)
    next
      assume q: "q = 511"
      then have "n + 32767 = 4294967296 + t"
        by (simp add: sum m_def)
      then have "r = t div 65536"
        using t_lt by (simp add: r_def)
      then show ?thesis
        using t_lt by simp
    qed
    then have "(r div 128) mod 256 \<noteq> 255"
      by auto
    then show ?thesis
      using False by simp
  qed
  then show ?thesis
    by (simp only: r_def k_def)
qed

text \<open>
  A NaN float stays a NaN under narrowing exactly when its 23-bit mantissa lies
  above \<open>0x8000\<close> and at most at \<open>0x7F8000\<close>: below, the payload is shifted out
  and the result is an infinity; above, the carry leaves the exponent field.
\<close>

lemma narrow_nan_iff:
  assumes nan: "float_is_nan f"
  shows "is_nan (bfloat16_of_float f)
    = (0x8000 < unat (float_mantissa f) \<and> unat (float_mantissa f) \<le> 0x7F8000)"
proof -
  have lt: "unat f < 4294967296"
    using unsigned_less [of f, where ?'a = nat] by simp
  have expo: "(unat f div 8388608) mod 256 = 255"
    using nan by (simp add: float_is_nan_nat)
  show ?thesis
    using narrow_nan_arith [OF lt expo]
    by (simp add: is_nan_nat unat_narrow unat_float_mantissa)
qed


section \<open>Conversion engine\<close>

text \<open>
  Claim C1. For every 32-bit float input, the converting constructor stores
  exactly the upper 16 bits of the wrapped sum of the float's bit pattern and
  \<open>0x7FFF\<close>: as a number, \<open>((bits + 0x7FFF) mod 2^32) div 2^16\<close>. For the largest
  finite float (\<open>0x7F7FFFFF\<close>, neither NaN nor infinite) the addition carries
  into the exponent field and the stored pattern is \<open>0x7F80\<close>, the pattern of
  \<open>infinity()\<close>.
\<close>

theorem narrow_stores_rounded_upper_half:
  "bits (bfloat16_of_float f) = ucast (drop_bit 16 (f + 0x7FFF))
   \<and> unat (bits (bfloat16_of_float f)) = ((unat f + 0x7FFF) mod 2 ^ 32) div 2 ^ 16
   \<and> \<not> float_is_nan float_max \<and> \<not> float_is_inf float_max
   \<and> float_exp_field float_max = 0xFE
   \<and> float_exp_field (float_max + 0x7FFF) = 0xFF
   \<and> bits (bfloat16_of_float float_max) = 0x7F80
   \<and> bfloat16_of_float float_max = infinity
   \<and> is_infinity (bfloat16_of_float float_max)"
proof -
  have general: "bits (bfloat16_of_float f) = ucast (drop_bit 16 (f + 0x7FFF))"
    by (simp add: bits_def bfloat16_of_float_def)
  have numeric: "unat (bits (bfloat16_of_float f)) = ((unat f + 0x7FFF) mod 2 ^ 32) div 2 ^ 16"
    by (simp only: bits_def unat_narrow)
  have finite_input: "\<not> float_is_nan float_max \<and> \<not> float_is_inf float_max
      \<and> float_exp_field float_max = 0xFE \<and> float_exp_field (float_max + 0x7FFF) = 0xFF"
    by (simp add: float_class_defs float_max_def)
  have stored: "bits (bfloat16_of_float float_max) = 0x7F80"
    by (simp add: bits_def bfloat16_of_float_def float_max_def)
  have same: "bfloat16_of_float float_max = infinity"
    by (simp add: bfloat16_of_float_def float_max_def infinity_def bfloat16_default_def mask_defs)
  have classified: "is_infinity (bfloat16_of_float float_max)"
    by (simp add: is_infinity_def bfloat16_of_float_def float_max_def mask_defs)
  from general numeric finite_input stored same classified show ?thesis
    by (simp only: simp_thms)
qed

text \<open>
  Claim C2. For every float whose lower 16 bits are zero, narrowing and then
  widening gives back the same bit pattern. Every widened 16-bit pattern is
  such a float, so widen-narrow-widen equals widen, and narrowing a widened
  value gives back the 16-bit value. In particular the round trip is exact for
  0.0, 1.0, 2.0, 4.0 and 8.0.
\<close>

theorem round_trip_exact:
  "(f AND 0xFFFF = 0 \<longrightarrow> operator_float (bfloat16_of_float f) = f)
   \<and> operator_float (bfloat16_of_float (operator_float v)) = operator_float v
   \<and> operator_float (bfloat16_of_float float_0_0) = float_0_0
   \<and> operator_float (bfloat16_of_float float_1_0) = float_1_0
   \<and> operator_float (bfloat16_of_float float_2_0) = float_2_0
   \<and> operator_float (bfloat16_of_float float_4_0) = float_4_0
   \<and> operator_float (bfloat16_of_float float_8_0) = float_8_0"
proof -
  have general: "f AND 0xFFFF = 0 \<longrightarrow> operator_float (bfloat16_of_float f) = f"
    by (simp add: widen_narrow_exact)
  have widened: "operator_float (bfloat16_of_float (operator_float v)) = operator_float v"
    by (rule widen_narrow_exact) (rule operator_float_low_half)
  have "operator_float (bfloat16_of_float float_0_0) = float_0_0"
    by (rule widen_narrow_exact) (simp add: float_0_0_def)
  moreover have "operator_float (bfloat16_of_float float_1_0) = float_1_0"
    by (rule widen_narrow_exact) (simp add: float_1_0_def)
  moreover have "operator_float (bfloat16_of_float float_2_0) = float_2_0"
    by (rule widen_narrow_exact) (simp add: float_2_0_def)
  moreover have "operator_float (bfloat16_of_float float_4_0) = float_4_0"
    by (rule widen_narrow_exact) (simp add: float_4_0_def)
  moreover have "operator_float (bfloat16_of_float float_8_0) = float_8_0"
    by (rule widen_narrow_exact) (simp add: float_8_0_def)
  ultimately show ?thesis
    using general widened by (simp only: simp_thms)
qed

theorem round_trip_exact_witness:
  "float_1_0 AND 0xFFFF = 0 \<and> operator_float (bfloat16_of_float float_1_0) = float_1_0"
proof -
  have low: "float_1_0 AND 0xFFFF = 0"
    by (simp add: float_1_0_def)
  show ?thesis
    using low round_trip_exact [of float_1_0 zero] by simp
qed

text \<open>
  Claim C3 asks that every NaN float narrows to a value that \<open>is_nan\<close> accepts.
  The constructor has no NaN case, and the addition of \<open>0x7FFF\<close> changes the
  class of some NaN inputs. The NaN with every mantissa bit set (\<open>0x7FFFFFFF\<close>)
  carries through the exponent into the sign and is stored as \<open>0x8000\<close>, which
  is negative zero; the NaN with only the lowest mantissa bit set
  (\<open>0x7F800001\<close>) loses its whole payload and is stored as \<open>0x7F80\<close>, which is
  infinity. The quiet NaN of the test suite (\<open>0x7FC00000\<close>) does stay a NaN.
\<close>

theorem narrow_nan_changes_class:
  "float_is_nan float_nan_all_ones
   \<and> bits (bfloat16_of_float float_nan_all_ones) = 0x8000
   \<and> \<not> is_nan (bfloat16_of_float float_nan_all_ones)
   \<and> is_zero (bfloat16_of_float float_nan_all_ones)
   \<and> float_is_nan float_nan_low_payload
   \<and> bits (bfloat16_of_float float_nan_low_payload) = 0x7F80
   \<and> \<not> is_nan (bfloat16_of_float float_nan_low_payload)
   \<and> is_infinity (bfloat16_of_float float_nan_low_payload)
   \<and> float_is_nan float_quiet_NaN
   \<and> is_nan (bfloat16_of_float float_quiet_NaN)"
  by (simp add: float_class_defs float_consts bits_def bfloat16_of_float_def
      is_nan_def is_zero_def is_infinity_def mask_defs)

text \<open>
  Claim C7. Every float that is an infinity narrows to a value that
  \<open>is_infinity\<close> accepts and that has the sign of the input; positive infinity
  is stored as \<open>0x7F80\<close> and negative infinity as \<open>0xFF80\<close>.
\<close>

theorem narrow_infinity:
  "(float_is_inf f \<longrightarrow>
      is_infinity (bfloat16_of_float f)
      \<and> is_negative (bfloat16_of_float f) = float_sign f
      \<and> bits (bfloat16_of_float f) = (if float_sign f then 0xFF80 else 0x7F80))
   \<and> float_is_inf float_infinity \<and> \<not> float_sign float_infinity
   \<and> bits (bfloat16_of_float float_infinity) = 0x7F80
   \<and> float_is_inf float_neg_infinity \<and> float_sign float_neg_infinity
   \<and> bits (bfloat16_of_float float_neg_infinity) = 0xFF80"
proof -
  have general: "is_infinity (bfloat16_of_float f)
      \<and> is_negative (bfloat16_of_float f) = float_sign f
      \<and> bits (bfloat16_of_float f) = (if float_sign f then 0xFF80 else 0x7F80)"
    if inf: "float_is_inf f"
  proof (cases "float_sign f")
    case True
    then have "f = 0xFF800000"
      using float_is_inf_cases [OF inf] by (simp add: float_neg_infinity_def)
    then show ?thesis
      using True by (simp add: is_infinity_def is_negative_def bits_def bfloat16_of_float_def mask_defs)
  next
    case False
    then have "f = 0x7F800000"
      using float_is_inf_cases [OF inf] by (simp add: float_infinity_def)
    then show ?thesis
      using False by (simp add: is_infinity_def is_negative_def bits_def bfloat16_of_float_def mask_defs)
  qed
  have concrete: "float_is_inf float_infinity \<and> \<not> float_sign float_infinity
      \<and> bits (bfloat16_of_float float_infinity) = 0x7F80
      \<and> float_is_inf float_neg_infinity \<and> float_sign float_neg_infinity
      \<and> bits (bfloat16_of_float float_neg_infinity) = 0xFF80"
    by (simp add: float_class_defs float_infinity_def float_neg_infinity_def bits_def
        bfloat16_of_float_def)
  from general concrete show ?thesis
    by blast
qed

theorem narrow_infinity_witness:
  "float_is_inf float_neg_infinity
   \<and> is_infinity (bfloat16_of_float float_neg_infinity)
   \<and> is_negative (bfloat16_of_float float_neg_infinity)
   \<and> bits (bfloat16_of_float float_neg_infinity) = 0xFF80"
proof -
  have inf: "float_is_inf float_neg_infinity" and sign: "float_sign float_neg_infinity"
    by (simp_all add: float_class_defs float_neg_infinity_def)
  show ?thesis
    using inf sign narrow_infinity [of float_neg_infinity] by simp
qed


section \<open>Comparison\<close>

text \<open>
  Claim C4. Equality and ordering compare the raw stored patterns: two values
  are equal exactly when their bits are equal, and the three-way comparison is
  the order of the patterns read as unsigned integers. So the values narrowed
  from \<open>+0.0\<close> and \<open>-0.0\<close> are unequal, a NaN pattern is equal to itself, and two
  different NaN patterns are unequal and ordered.
\<close>

theorem comparison_is_raw_bits:
  "operator_eq x y = (bits x = bits y)
   \<and> operator_ne x y = (bits x \<noteq> bits y)
   \<and> (operator_spaceship x y = equal) = (bits x = bits y)
   \<and> (operator_spaceship x y = less) = (unat (bits x) < unat (bits y))
   \<and> (operator_spaceship x y = greater) = (unat (bits y) < unat (bits x))
   \<and> \<not> operator_eq (bfloat16_of_float float_0_0) (bfloat16_of_float float_neg_0_0)
   \<and> is_nan nan \<and> operator_eq nan nan
   \<and> is_nan (bfloat16_of_float float_quiet_NaN)
   \<and> \<not> operator_eq nan (bfloat16_of_float float_quiet_NaN)
   \<and> operator_lt nan (bfloat16_of_float float_quiet_NaN)
   \<and> operator_gt (bfloat16_of_float float_quiet_NaN) nan"
proof -
  have general: "operator_eq x y = (bits x = bits y)
      \<and> operator_ne x y = (bits x \<noteq> bits y)
      \<and> (operator_spaceship x y = equal) = (bits x = bits y)
      \<and> (operator_spaceship x y = less) = (unat (bits x) < unat (bits y))
      \<and> (operator_spaceship x y = greater) = (unat (bits y) < unat (bits x))"
    by (auto simp add: operator_eq_def operator_ne_def operator_spaceship_def bits_def
        word_less_nat_alt word_unat_eq_iff)
  have zeros: "\<not> operator_eq (bfloat16_of_float float_0_0) (bfloat16_of_float float_neg_0_0)"
    by (simp add: operator_eq_def bfloat16_of_float_def float_0_0_def float_neg_0_0_def)
  have nans: "is_nan nan \<and> operator_eq nan nan
      \<and> is_nan (bfloat16_of_float float_quiet_NaN)
      \<and> \<not> operator_eq nan (bfloat16_of_float float_quiet_NaN)
      \<and> operator_lt nan (bfloat16_of_float float_quiet_NaN)
      \<and> operator_gt (bfloat16_of_float float_quiet_NaN) nan"
    by (simp add: operator_eq_def operator_lt_def operator_gt_def operator_spaceship_def
        bfloat16_of_float_def float_quiet_NaN_def nan_def is_nan_def mask_defs
        bfloat16_default_def)
  from general zeros nans show ?thesis
    by (simp only: simp_thms)
qed

text \<open>
  Claim C9. The order is the order of the stored pattern as an unsigned 16-bit
  integer, so every value with the sign bit set is strictly greater than every
  value with the sign bit clear. For example the narrowing of \<open>-1.0\<close> is greater
  than the narrowing of \<open>1.0\<close>, and \<open>negative_infinity()\<close> is greater than
  \<open>infinity()\<close>.
\<close>

theorem negative_compares_greater:
  "(is_negative a \<and> \<not> is_negative b \<longrightarrow>
      operator_gt a b \<and> operator_lt b a \<and> \<not> operator_eq a b)
   \<and> operator_gt (bfloat16_of_float float_neg_1_0) (bfloat16_of_float float_1_0)
   \<and> operator_gt negative_infinity infinity"
proof -
  have general: "is_negative a \<and> \<not> is_negative b \<longrightarrow>
      operator_gt a b \<and> operator_lt b a \<and> \<not> operator_eq a b"
    by (simp add: is_negative_iff operator_gt_def operator_lt_def operator_eq_def
        operator_spaceship_def word_less_nat_alt word_unat_eq_iff)
  have examples: "operator_gt (bfloat16_of_float float_neg_1_0) (bfloat16_of_float float_1_0)
      \<and> operator_gt negative_infinity infinity"
    by (simp add: operator_gt_def operator_spaceship_def bfloat16_of_float_def
        float_neg_1_0_def float_1_0_def negative_infinity_def infinity_def
        bfloat16_default_def mask_defs)
  from general examples show ?thesis
    by (simp only: simp_thms)
qed

theorem negative_compares_greater_witness:
  "is_negative (bfloat16_of_float float_neg_1_0)
   \<and> \<not> is_negative (bfloat16_of_float float_1_0)
   \<and> operator_gt (bfloat16_of_float float_neg_1_0) (bfloat16_of_float float_1_0)
   \<and> operator_lt (bfloat16_of_float float_1_0) (bfloat16_of_float float_neg_1_0)"
proof -
  have neg: "is_negative (bfloat16_of_float float_neg_1_0)"
    by (simp add: is_negative_def bfloat16_of_float_def float_neg_1_0_def mask_defs)
  have pos: "\<not> is_negative (bfloat16_of_float float_1_0)"
    by (simp add: is_negative_def bfloat16_of_float_def float_1_0_def mask_defs)
  show ?thesis
    using neg pos
      negative_compares_greater
        [of "bfloat16_of_float float_neg_1_0" "bfloat16_of_float float_1_0"]
    by simp
qed

section \<open>Arithmetic layer\<close>

text \<open>
  Claim C5. For every pair of values and whatever the platform's float
  operations are, each binary operator returns the narrowing of the float
  operation applied to the two widened operands, and each compound assignment
  leaves exactly that narrowed result in the receiver.
\<close>

theorem binary_operators_promote_compute_narrow:
  "operator_plus F a b = bfloat16_of_float (fadd F (operator_float a) (operator_float b))
   \<and> operator_minus F a b = bfloat16_of_float (fsub F (operator_float a) (operator_float b))
   \<and> operator_times F a b = bfloat16_of_float (fmul F (operator_float a) (operator_float b))
   \<and> operator_div F a b = bfloat16_of_float (fdiv F (operator_float a) (operator_float b))
   \<and> bits (operator_plus_assign F a b)
       = bits (bfloat16_of_float (fadd F (operator_float a) (operator_float b)))
   \<and> bits (operator_minus_assign F a b)
       = bits (bfloat16_of_float (fsub F (operator_float a) (operator_float b)))
   \<and> bits (operator_times_assign F a b)
       = bits (bfloat16_of_float (fmul F (operator_float a) (operator_float b)))
   \<and> bits (operator_div_assign F a b)
       = bits (bfloat16_of_float (fdiv F (operator_float a) (operator_float b)))"
  by (simp add: operator_plus_def operator_minus_def operator_times_def operator_div_def
      operator_plus_assign_def operator_minus_assign_def operator_times_assign_def
      operator_div_assign_def bits_def Let_def)

text \<open>
  Claim C8. For every value, NaN and infinity patterns included, unary minus
  returns the value whose bits are the operand's bits XOR \<open>0x8000\<close>. The
  exponent and mantissa fields, and with them the NaN and infinity
  classification, are unchanged, and negating twice gives back the operand.
\<close>

theorem negation_flips_sign_bit_only:
  "bits (operator_neg x) = bits x XOR 0x8000
   \<and> bits (operator_neg x) AND 0x7FFF = bits x AND 0x7FFF
   \<and> promote (bits (operator_neg x)) AND EXP_MASK = promote (bits x) AND EXP_MASK
   \<and> get_mantissa (operator_neg x) = get_mantissa x
   \<and> is_nan (operator_neg x) = is_nan x
   \<and> is_infinity (operator_neg x) = is_infinity x
   \<and> is_negative (operator_neg x) = (\<not> is_negative x)
   \<and> operator_neg (operator_neg x) = x
   \<and> operator_eq (operator_neg (operator_neg x)) x"
proof -
  have flipped: "bits (operator_neg x) = bits x XOR 0x8000"
    by (simp add: bits_def neg_bits)
  have rest: "bits (operator_neg x) AND 0x7FFF = bits x AND 0x7FFF"
    by (simp add: bits_def neg_bits bit.conj_xor_distrib2)
  have expo: "promote (data (operator_neg x)) AND EXP_MASK = promote (data x) AND EXP_MASK"
    by (simp add: neg_bits mask_defs unsigned_xor_eq bit.conj_xor_distrib2)
  have mant: "promote (data (operator_neg x)) AND MANT_MASK = promote (data x) AND MANT_MASK"
    by (simp add: neg_bits mask_defs unsigned_xor_eq bit.conj_xor_distrib2)
  have neg: "is_negative (operator_neg x) = (\<not> is_negative x)"
  proof -
    have "(0x8000 :: 16 word) = push_bit 15 1"
      by simp
    then have "bit (0x8000 :: 16 word) 15"
      by (simp only: bit_push_bit_iff) simp
    then show ?thesis
      by (simp add: is_negative_bit neg_bits bit_xor_iff)
  qed
  have "data (operator_neg (operator_neg x)) = data x"
    by (simp add: neg_bits xor.assoc)
  then have twice: "operator_neg (operator_neg x) = x"
    by simp
  show ?thesis
    using flipped rest expo mant neg twice
    by (simp add: bits_def get_mantissa_def is_nan_def is_infinity_def operator_eq_def)
qed

section \<open>Classifier\<close>

text \<open>
  Claim C10. For every 16-bit pattern, \<open>is_nan\<close> and \<open>is_infinity\<close> are never
  both true, and whenever \<open>is_zero\<close> is true both of them are false.
\<close>

theorem classifiers_exclusive:
  "\<not> (is_nan x \<and> is_infinity x)
   \<and> (is_zero x \<longrightarrow> \<not> is_nan x \<and> \<not> is_infinity x)"
proof -
  have "\<not> (is_nan x \<and> is_infinity x)"
    by (simp add: is_nan_def is_infinity_def)
  moreover have "\<not> is_nan x \<and> \<not> is_infinity x" if "is_zero x"
    using zero_exp_field [OF that] by (simp add: is_nan_def is_infinity_def)
  ultimately show ?thesis
    by blast
qed

theorem classifiers_exclusive_witness:
  "is_zero zero \<and> \<not> is_nan zero \<and> \<not> is_infinity zero
   \<and> is_nan nan \<and> \<not> is_infinity nan
   \<and> is_infinity infinity \<and> \<not> is_nan infinity"
proof -
  have z: "is_zero zero"
    by (simp add: is_zero_def zero_def bfloat16_default_def mask_defs)
  have n: "is_nan nan"
    by (simp add: is_nan_def nan_def bfloat16_default_def mask_defs)
  have i: "is_infinity infinity"
    by (simp add: is_infinity_def infinity_def bfloat16_default_def mask_defs)
  show ?thesis
    using z n i classifiers_exclusive [of zero] classifiers_exclusive [of nan]
      classifiers_exclusive [of infinity]
    by simp
qed

section \<open>Limits table\<close>

text \<open>
  Claim C6. The numeric-limits functions return exactly these bit patterns:
  \<open>min\<close> \<open>0x0080\<close>, \<open>lowest\<close> \<open>0xFF7F\<close>, \<open>max\<close> \<open>0x7F7F\<close>, \<open>epsilon\<close> \<open>0x3C00\<close>,
  \<open>denorm_min\<close> \<open>0x0001\<close>, \<open>infinity\<close> \<open>0x7F80\<close>, \<open>quiet_NaN\<close> \<open>0x7F81\<close>, and
  \<open>round_error\<close> is the narrowing of the float 0.5, with bits \<open>0x3F00\<close>.
\<close>

theorem limits_table:
  "bits limits_min = 0x0080
   \<and> bits limits_lowest = 0xFF7F
   \<and> bits limits_max = 0x7F7F
   \<and> bits limits_epsilon = 0x3C00
   \<and> bits limits_denorm_min = 0x0001
   \<and> bits limits_infinity = 0x7F80
   \<and> bits limits_quiet_NaN = 0x7F81
   \<and> limits_round_error = bfloat16_of_float float_0_5
   \<and> bits limits_round_error = 0x3F00"
  by (simp add: bits_def limits_min_def limits_lowest_def limits_max_def limits_epsilon_def
      limits_denorm_min_def limits_infinity_def limits_quiet_NaN_def limits_round_error_def
      set_bits_def bfloat16_default_def infinity_def nan_def mask_defs bfloat16_of_float_def
      float_0_5_def)

end
